theory Spec2Isabelle
  imports Main
begin

section \<open>The generic scheduler: data model\<close>

text \<open>
  The embedding follows the scheduler source (package \<open>scheduler\<close>): \<open>FitError.Error\<close>,
  \<open>Schedule\<close>, \<open>selectHost\<close>, \<open>findNodesThatFit\<close>, \<open>PrioritizeNodes\<close>, \<open>getBestHosts\<close>
  and \<open>EqualPriority\<close>. A Go function returning \<open>(value, error)\<close> is a function returning
  a pair whose second component is an \<open>error option\<close> (\<open>None\<close> is Go's \<open>nil\<close>), so that
  the values returned next to an error can be stated. Collaborators behind interfaces
  (predicates, priority functions, extenders, listers) are pure functions handed in as
  arguments. The result of a lister, of a priority function and of an extender is a sum,
  with \<open>Inl\<close> for the error; a predicate returns the pair \<open>(fit, err)\<close>, of which the
  scheduler reads both components.

  Of a pod and of a node the scheduler reads the name only.
\<close>

datatype Pod = MkPod (PodName: string)

datatype Node = MkNode (Name: string)

type_synonym NodeList = "Node list"

text \<open>\<open>FailedPredicateMap\<close> is \<open>map[string]sets.String\<close>: node name to set of reasons.\<close>

type_synonym FailedPredicateMap = "string \<rightharpoonup> string set"

record FitError =
  Pod :: Pod
  FailedPredicates :: FailedPredicateMap

text \<open>
  The errors the scheduler builds or passes on. \<open>InsufficientResourceError\<close> carries the
  \<open>ResourceName\<close> field of \<open>predicates.InsufficientResourceError\<close>, the only field read
  here. \<open>UnexpectedFit\<close> is the error of line 135, \<open>EmptyPriorityList\<close> the one of line 109,
  \<open>Aggregate\<close> the value of \<open>errors.NewAggregate\<close> on a non-empty list, \<open>OtherError\<close> any
  other error of a collaborator. The two panics are run-time panics of Go, which unwind
  through every caller as an error return does.
\<close>

datatype error =
    ErrNoNodesAvailable
  | FitErr FitError
  | InsufficientResourceError string
  | UnexpectedFit string
  | EmptyPriorityList
  | Aggregate "error list"
  | OtherError string
  | NilPointerPanic
  | DivideByZeroPanic

text \<open>
  \<open>algorithm.FitPredicate\<close>: pod, the pods already on the node, the node's name; the
  result is \<open>(fit, err)\<close>.
\<close>

type_synonym FitPredicate = "Pod \<Rightarrow> Pod list \<Rightarrow> string \<Rightarrow> bool \<times> error option"

record HostPriority =
  Host :: string
  Score :: int

type_synonym HostPriorityList = "HostPriority list"

text \<open>
  \<open>algorithm.NodeLister\<close> is an interface with one method \<open>List\<close>; the interface value can
  be \<open>nil\<close> (\<open>PrioritizeNodes\<close> tests for it). A lister is the result its \<open>List\<close> returns;
  calling \<open>List\<close> on \<open>nil\<close> panics.
\<close>

datatype NodeLister = NilLister | Lister "error + NodeList"

fun NodeLister_List :: "NodeLister \<Rightarrow> NodeList \<times> error option" where
  "NodeLister_List NilLister = ([], Some NilPointerPanic)"
| "NodeLister_List (Lister (Inl err)) = ([], Some err)"
| "NodeLister_List (Lister (Inr nodes)) = (nodes, None)"

fun isNil :: "NodeLister \<Rightarrow> bool" where
  "isNil NilLister = True"
| "isNil (Lister l) = False"

text \<open>
  Modelled from the spec: \<open>algorithm.FakeNodeLister\<close> (package
  \<open>plugin/pkg/scheduler/algorithm\<close>, not among the sources), the lister that \<open>Schedule\<close>
  builds from the filtered nodes and hands to \<open>PrioritizeNodes\<close>. Section 4.4 of the
  specification runs the Priority Stage "over survivors": the lister's \<open>List\<close> returns
  the list it wraps, and no error.
\<close>

definition FakeNodeLister :: "NodeList \<Rightarrow> NodeLister" where
  "FakeNodeLister nodes = Lister (Inr nodes)"

text \<open>\<open>algorithm.PodLister\<close>: the pods it lists.\<close>

type_synonym PodLister = "Pod list"

text \<open>\<open>algorithm.SchedulerExtender\<close>: the two operations of the interface.\<close>

record SchedulerExtender =
  Filter :: "Pod \<Rightarrow> NodeList \<Rightarrow> error + NodeList"
  Prioritize :: "Pod \<Rightarrow> NodeList \<Rightarrow> error + (HostPriorityList \<times> int)"

type_synonym PriorityFunction =
  "Pod \<Rightarrow> (string \<Rightarrow> Pod list) \<Rightarrow> PodLister \<Rightarrow> NodeLister \<Rightarrow> error + HostPriorityList"

record PriorityConfig =
  Function :: PriorityFunction
  Weight :: int

text \<open>
  What the scheduler does to its collaborators is kept as a log of calls, returned next
  to each function's result: a predicate invoked (predicate name, node name), an
  extender's \<open>Filter\<close> invoked and an extender's \<open>Prioritize\<close> invoked (each with the node
  list it is given).
\<close>

datatype event =
    PredicateCall string string
  | ExtenderFilter NodeList
  | ExtenderPrioritize NodeList

section \<open>Filter stage: \<open>findNodesThatFit\<close>\<close>

text \<open>
  Lines 131 to 141: the error, if any, with which \<open>findNodesThatFit\<close> returns after a
  predicate answered \<open>(fit, err)\<close>.
\<close>

fun predicateError :: "bool \<Rightarrow> error option \<Rightarrow> error option" where
  "predicateError fit None = None"
| "predicateError fit (Some (InsufficientResourceError r)) =
     (if fit then Some (UnexpectedFit r) else None)"
| "predicateError fit (Some e) = Some e"

text \<open>
  Lines 147 to 151: the reason inserted for a predicate called \<open>name\<close> that answered
  \<open>(False, err)\<close>. The type assertion of line 147 fails on \<open>nil\<close>.
\<close>

fun failureReason :: "string \<Rightarrow> error option \<Rightarrow> string" where
  "failureReason name (Some (InsufficientResourceError r)) = r"
| "failureReason name err = name"

text \<open>Lines 144 to 151: create the node's set when absent, then \<open>Insert\<close>.\<close>

definition recordFailure :: "FailedPredicateMap \<Rightarrow> string \<Rightarrow> string \<Rightarrow> FailedPredicateMap" where
  "recordFailure failedPredicateMap node reason =
     (let m = (case failedPredicateMap node of
                 None \<Rightarrow> failedPredicateMap(node \<mapsto> {})
               | Some s \<Rightarrow> failedPredicateMap)
      in m(node \<mapsto> insert reason (case m node of None \<Rightarrow> {} | Some s \<Rightarrow> s)))"

text \<open>
  The inner loop, lines 129 to 154, for one node. \<open>predicateFuncs\<close> is a Go map; the list
  holds its entries in the order in which \<open>range\<close> yields them, which Go leaves open:
  what is proved for every list holds for every order. The outer loop below gives the
  same list to every node.
  The result is \<open>Inl err\<close> when the function returns with \<open>err\<close> from inside the loop,
  otherwise \<open>Inr (fits, failedPredicateMap)\<close> as the loop leaves them.
\<close>

fun predicateLoop ::
  "Pod \<Rightarrow> (string \<Rightarrow> Pod list) \<Rightarrow> Node \<Rightarrow> (string \<times> FitPredicate) list \<Rightarrow> FailedPredicateMap
    \<Rightarrow> (error + bool \<times> FailedPredicateMap) \<times> event list" where
  "predicateLoop pod machineToPods node [] failedPredicateMap =
     (Inr (True, failedPredicateMap), [])"
| "predicateLoop pod machineToPods node ((name, predicate) # rest) failedPredicateMap =
     (case predicate pod (machineToPods (Name node)) (Name node) of (fit, err) \<Rightarrow>
        (case predicateError fit err of
           Some e \<Rightarrow> (Inl e, [PredicateCall name (Name node)])
         | None \<Rightarrow>
             if \<not> fit then
               (Inr (False, recordFailure failedPredicateMap (Name node) (failureReason name err)),
                [PredicateCall name (Name node)])
             else
               (case predicateLoop pod machineToPods node rest failedPredicateMap of
                  (r, log) \<Rightarrow> (r, PredicateCall name (Name node) # log))))"

text \<open>The outer loop, lines 127 to 158.\<close>

fun nodeLoop ::
  "Pod \<Rightarrow> (string \<Rightarrow> Pod list) \<Rightarrow> (string \<times> FitPredicate) list \<Rightarrow> NodeList \<Rightarrow> NodeList
    \<Rightarrow> FailedPredicateMap \<Rightarrow> (error + NodeList \<times> FailedPredicateMap) \<times> event list" where
  "nodeLoop pod machineToPods predicateFuncs [] filtered failedPredicateMap =
     (Inr (filtered, failedPredicateMap), [])"
| "nodeLoop pod machineToPods predicateFuncs (node # nodes) filtered failedPredicateMap =
     (case predicateLoop pod machineToPods node predicateFuncs failedPredicateMap of
        (Inl err, log) \<Rightarrow> (Inl err, log)
      | (Inr (fits, failedPredicateMap'), log) \<Rightarrow>
          (case nodeLoop pod machineToPods predicateFuncs nodes
                  (if fits then filtered @ [node] else filtered) failedPredicateMap' of
             (r, log') \<Rightarrow> (r, log @ log')))"

text \<open>The loop over the extenders, lines 160 to 169.\<close>

fun extenderLoop ::
  "Pod \<Rightarrow> SchedulerExtender list \<Rightarrow> NodeList \<Rightarrow> (error + NodeList) \<times> event list" where
  "extenderLoop pod [] filtered = (Inr filtered, [])"
| "extenderLoop pod (extender # rest) filtered =
     (case Filter extender pod filtered of
        Inl err \<Rightarrow> (Inl err, [ExtenderFilter filtered])
      | Inr filteredList \<Rightarrow>
          if length filteredList = 0 then (Inr filteredList, [ExtenderFilter filtered])
          else (case extenderLoop pod rest filteredList of
                  (r, log) \<Rightarrow> (r, ExtenderFilter filtered # log)))"

definition findNodesThatFit ::
  "Pod \<Rightarrow> (string \<Rightarrow> Pod list) \<Rightarrow> (string \<times> FitPredicate) list \<Rightarrow> NodeList
    \<Rightarrow> SchedulerExtender list \<Rightarrow> (NodeList \<times> FailedPredicateMap \<times> error option) \<times> event list" where
  "findNodesThatFit pod machineToPods predicateFuncs nodes extenders =
     (case nodeLoop pod machineToPods predicateFuncs nodes [] Map.empty of
        (Inl err, log) \<Rightarrow> (([], Map.empty, Some err), log)
      | (Inr (filtered, failedPredicateMap), log) \<Rightarrow>
          if length filtered > 0 \<and> length extenders \<noteq> 0 then
            (case extenderLoop pod extenders filtered of
               (Inl err, log') \<Rightarrow> (([], Map.empty, Some err), log @ log')
             | (Inr filtered', log') \<Rightarrow> ((filtered', failedPredicateMap, None), log @ log'))
          else ((filtered, failedPredicateMap, None), log))"

section \<open>Priority stage: \<open>PrioritizeNodes\<close> and \<open>EqualPriority\<close>\<close>

definition EqualPriority ::
  "Pod \<Rightarrow> (string \<Rightarrow> Pod list) \<Rightarrow> PodLister \<Rightarrow> NodeLister \<Rightarrow> HostPriorityList \<times> error option" where
  "EqualPriority pod machinesToPods podLister nodeLister =
     (case NodeLister_List nodeLister of
        (nodes, Some err) \<Rightarrow> ([], Some err)
      | (nodes, None) \<Rightarrow> (map (\<lambda>node. \<lparr>Host = Name node, Score = 1\<rparr>) nodes, None))"

text \<open>
  \<open>combinedScores\<close> is a \<open>map[string]int\<close>. It is kept as an association list with one
  entry per host, in the order in which hosts are first scored; \<open>combinedScores[host] +=
  score * weight\<close> reads a missing host as 0. Go's \<open>int\<close> has the width of the platform
  and wraps; the sums are kept in \<open>int\<close>, and no statement below depends on the value of
  a sum that could leave that range.
\<close>

fun addScore :: "(string \<times> int) list \<Rightarrow> string \<Rightarrow> int \<Rightarrow> (string \<times> int) list" where
  "addScore [] host delta = [(host, 0 + delta)]"
| "addScore ((h, s) # rest) host delta =
     (if h = host then (h, s + delta) # rest else (h, s) # addScore rest host delta)"

text \<open>Lines 215 to 218 and 244 to 247: the loop over one prioritized list.\<close>

fun addList :: "(string \<times> int) list \<Rightarrow> int \<Rightarrow> HostPriorityList \<Rightarrow> (string \<times> int) list" where
  "addList combinedScores weight [] = combinedScores"
| "addList combinedScores weight (entry # rest) =
     addList (addScore combinedScores (Host entry) (Score entry * weight)) weight rest"

text \<open>
  The first wave, lines 196 to 221, starts one goroutine per priority function of
  non-zero weight. The error check of line 222 comes before \<open>wg.Wait()\<close> (line 227): it
  reads \<open>errs\<close> while the goroutines may still be running. \<open>finished i\<close> says whether the
  \<open>i\<close>-th goroutine started (counting from 0) has ended by the time line 222 reads
  \<open>errs\<close>; the scheduling of goroutines decides it. \<open>errsAtCheck\<close> is the content of
  \<open>errs\<close> at that moment, \<open>outcomes\<close> being the result of each started priority function
  paired with its weight.
\<close>

fun errsAtCheck ::
  "(nat \<Rightarrow> bool) \<Rightarrow> nat \<Rightarrow> (int \<times> (error + HostPriorityList)) list \<Rightarrow> error list" where
  "errsAtCheck finished i [] = []"
| "errsAtCheck finished i ((weight, Inl err) # rest) =
     (if finished i then err # errsAtCheck finished (Suc i) rest
      else errsAtCheck finished (Suc i) rest)"
| "errsAtCheck finished i ((weight, Inr prioritizedList) # rest) =
     errsAtCheck finished (Suc i) rest"

text \<open>
  After \<open>wg.Wait()\<close> every goroutine of the first wave has ended: one whose function
  failed has added nothing (line 212), the others have added their weighted scores.
  Additions commute, so the table does not depend on the order of the goroutines.
\<close>

fun priorityScores ::
  "(string \<times> int) list \<Rightarrow> (int \<times> (error + HostPriorityList)) list \<Rightarrow> (string \<times> int) list" where
  "priorityScores combinedScores [] = combinedScores"
| "priorityScores combinedScores ((weight, Inl err) # rest) = priorityScores combinedScores rest"
| "priorityScores combinedScores ((weight, Inr prioritizedList) # rest) =
     priorityScores (addList combinedScores weight prioritizedList) rest"

text \<open>
  The second wave, lines 234 to 250: every extender's \<open>Prioritize\<close> is called with the
  same list \<open>nodes\<close>; an error is dropped (line 239).
\<close>

fun extenderScores ::
  "Pod \<Rightarrow> NodeList \<Rightarrow> (string \<times> int) list \<Rightarrow> SchedulerExtender list
    \<Rightarrow> (string \<times> int) list \<times> event list" where
  "extenderScores pod nodes combinedScores [] = (combinedScores, [])"
| "extenderScores pod nodes combinedScores (ext # rest) =
     (case extenderScores pod nodes
             (case Prioritize ext pod nodes of
                Inl err \<Rightarrow> combinedScores
              | Inr (prioritizedList, weight) \<Rightarrow> addList combinedScores weight prioritizedList)
             rest of
        (scores, log) \<Rightarrow> (scores, ExtenderPrioritize nodes # log))"

text \<open>
  Lines 255 to 258 range over \<open>combinedScores\<close>; Go leaves the order of the ranking open,
  here it is the order of the table.
\<close>

definition ranking :: "(string \<times> int) list \<Rightarrow> HostPriorityList" where
  "ranking combinedScores = map (\<lambda>(host, score). \<lparr>Host = host, Score = score\<rparr>) combinedScores"

definition PrioritizeNodes ::
  "Pod \<Rightarrow> (string \<Rightarrow> Pod list) \<Rightarrow> PodLister \<Rightarrow> PriorityConfig list \<Rightarrow> NodeLister
    \<Rightarrow> SchedulerExtender list \<Rightarrow> (nat \<Rightarrow> bool)
    \<Rightarrow> (HostPriorityList \<times> error option) \<times> event list" where
  "PrioritizeNodes pod machinesToPods podLister priorityConfigs nodeLister extenders finished =
     (if length priorityConfigs = 0 \<and> length extenders = 0 then
        (EqualPriority pod machinesToPods podLister nodeLister, [])
      else
        let outcomes =
              map (\<lambda>config. (Weight config,
                     Function config pod machinesToPods podLister nodeLister))
                (filter (\<lambda>priorityConfig. Weight priorityConfig \<noteq> 0) priorityConfigs);
            errs = errsAtCheck finished 0 outcomes
        in if length errs \<noteq> 0 then (([], Some (Aggregate errs)), [])
           else
             let combinedScores = priorityScores [] outcomes
             in if length extenders \<noteq> 0 \<and> \<not> isNil nodeLister then
                  (case NodeLister_List nodeLister of
                     (nodes, Some err) \<Rightarrow> (([], Some err), [])
                   | (nodes, None) \<Rightarrow>
                       (case extenderScores pod nodes combinedScores extenders of
                          (scores, log) \<Rightarrow> ((ranking scores, None), log)))
                else ((ranking combinedScores, None), []))"

section \<open>Selector: \<open>selectHost\<close> and \<open>getBestHosts\<close>\<close>

text \<open>
  Modelled from the spec: the methods \<open>Len\<close>, \<open>Less\<close> and \<open>Swap\<close> of
  \<open>schedulerapi.HostPriorityList\<close> (package \<open>plugin/pkg/scheduler/api\<close>, not among the
  sources), through which \<open>sort.Sort(sort.Reverse(priorityList))\<close> orders the ranking.
  Section 4.3 of the specification: "Sorts the ranking by score descending."
\<close>

definition sortReverse :: "HostPriorityList \<Rightarrow> HostPriorityList" where
  "sortReverse priorityList = sort_key (\<lambda>hostEntry. - Score hostEntry) priorityList"

text \<open>Lines 264 to 270, \<open>score\<close> being \<open>list[0].Score\<close>.\<close>

fun bestLoop :: "int \<Rightarrow> HostPriorityList \<Rightarrow> string list" where
  "bestLoop score [] = []"
| "bestLoop score (hostEntry # rest) =
     (if Score hostEntry = score then Host hostEntry # bestLoop score rest else [])"

definition getBestHosts :: "HostPriorityList \<Rightarrow> string list" where
  "getBestHosts list = (case list of [] \<Rightarrow> [] | first # rest \<Rightarrow> bestLoop (Score first) list)"

text \<open>
  \<open>rnd\<close> is the value of \<open>g.random.Int()\<close>, a non-negative number. The remainder by
  \<open>len(hosts)\<close> panics in Go when \<open>hosts\<close> is empty.
\<close>

definition selectHost :: "nat \<Rightarrow> HostPriorityList \<Rightarrow> string \<times> error option" where
  "selectHost rnd priorityList =
     (if length priorityList = 0 then ('''', Some EmptyPriorityList)
      else
        let hosts = getBestHosts (sortReverse priorityList)
        in if length hosts = 0 then ('''', Some DivideByZeroPanic)
           else (hosts ! (rnd mod length hosts), None))"

section \<open>\<open>Schedule\<close>\<close>

text \<open>
  The fields of \<open>genericScheduler\<close> but for the random source and its lock: the draw is an
  argument of \<open>Schedule\<close>.
\<close>

record genericScheduler =
  predicates :: "(string \<times> FitPredicate) list"
  prioritizers :: "PriorityConfig list"
  extenders :: "SchedulerExtender list"
  pods :: PodLister

text \<open>
  \<open>predicates.MapPodsToMachines\<close> is not among the sources; it is an argument, as are the
  schedule \<open>finished\<close> of the priority goroutines and the random draw \<open>rnd\<close>.
\<close>

definition Schedule ::
  "(PodLister \<Rightarrow> error + (string \<Rightarrow> Pod list)) \<Rightarrow> genericScheduler \<Rightarrow> Pod \<Rightarrow> NodeLister
    \<Rightarrow> (nat \<Rightarrow> bool) \<Rightarrow> nat \<Rightarrow> (string \<times> error option) \<times> event list" where
  "Schedule MapPodsToMachines g pod nodeLister finished rnd =
     (case NodeLister_List nodeLister of
        (nodes, Some err) \<Rightarrow> (('''', Some err), [])
      | (nodes, None) \<Rightarrow>
          if length nodes = 0 then (('''', Some ErrNoNodesAvailable), [])
          else
            (case MapPodsToMachines (pods g) of
               Inl err \<Rightarrow> (('''', Some err), [])
             | Inr machinesToPods \<Rightarrow>
                 (case findNodesThatFit pod machinesToPods (predicates g) nodes (extenders g) of
                    ((filteredNodes, failedPredicateMap, Some err), log) \<Rightarrow> (('''', Some err), log)
                  | ((filteredNodes, failedPredicateMap, None), log) \<Rightarrow>
                      if length filteredNodes = 0 then
                        (('''', Some (FitErr \<lparr>Pod = pod, FailedPredicates = failedPredicateMap\<rparr>)),
                         log)
                      else
                        (case PrioritizeNodes pod machinesToPods (pods g) (prioritizers g)
                                (FakeNodeLister filteredNodes) (extenders g) finished of
                           ((priorityList, Some err), log') \<Rightarrow> (('''', Some err), log @ log')
                         | ((priorityList, None), log') \<Rightarrow>
                             (selectHost rnd priorityList, log @ log')))))"

section \<open>\<open>FitError.Error\<close>\<close>

text \<open>
  Modelled from the spec: the method \<open>PopAny\<close> of \<open>sets.String\<close> (package
  \<open>pkg/util/sets\<close>, not among the sources), which line 51 calls on a candidate's set of
  reasons. Section 7 of the specification has it make an "arbitrary pick from one
  candidate's reason set"; \<open>pick\<close> is that choice (Go takes the first element that
  \<open>range\<close> yields). The specification does not say what becomes of the element picked.
  The method is a pop, by its name and in the set library of the repository: the element
  returned is deleted from the set, and on the empty set the zero string and \<open>false\<close> are
  returned.
\<close>

definition PopAny :: "(string set \<Rightarrow> string) \<Rightarrow> string set \<Rightarrow> (string \<times> bool) \<times> string set" where
  "PopAny pick s = (if s = {} then (('''', False), s) else ((pick s, True), s - {pick s}))"

text \<open>
  Lines 48 to 53. \<open>order\<close> lists the keys of \<open>f.FailedPredicates\<close> in the order in which
  \<open>range\<close> yields them. The sets are Go maps, shared with the failure map: what \<open>PopAny\<close>
  deletes is deleted in \<open>f.FailedPredicates\<close>. The log line of line 49 is left out.
\<close>

fun errorLoop ::
  "(string set \<Rightarrow> string) \<Rightarrow> string list \<Rightarrow> string \<Rightarrow> FailedPredicateMap
    \<Rightarrow> string \<times> FailedPredicateMap" where
  "errorLoop pick [] reason failedPredicates = (reason, failedPredicates)"
| "errorLoop pick (node # rest) reason failedPredicates =
     (case failedPredicates node of
        None \<Rightarrow> errorLoop pick rest reason failedPredicates
      | Some predicateList \<Rightarrow>
          if length reason = 0 then
            (case PopAny pick predicateList of
               ((popped, found), predicateList') \<Rightarrow>
                 errorLoop pick rest popped (failedPredicates(node \<mapsto> predicateList')))
          else errorLoop pick rest reason failedPredicates)"

text \<open>The string returned, and the \<open>FitError\<close> as the call leaves it.\<close>

definition Error :: "(string set \<Rightarrow> string) \<Rightarrow> string list \<Rightarrow> FitError \<Rightarrow> string \<times> FitError" where
  "Error pick order f =
     (case errorLoop pick order '''' (FailedPredicates f) of
        (reason, failedPredicates) \<Rightarrow>
          (''Failed for reason '' @ reason @ '' and possibly others'',
           f\<lparr>FailedPredicates := failedPredicates\<rparr>))"

section \<open>Concrete inputs\<close>

text \<open>A pod, a cluster without pods, and predicates, extenders and priority functions
  with fixed answers.\<close>

definition pod0 :: Pod where
  "pod0 = MkPod ''pod''"

definition noPods :: "string \<Rightarrow> Pod list" where
  "noPods machine = []"

definition mapPodsOk :: "PodLister \<Rightarrow> error + (string \<Rightarrow> Pod list)" where
  "mapPodsOk podLister = Inr noPods"

definition alwaysFits :: FitPredicate where
  "alwaysFits pod existing node = (True, None)"

definition neverFits :: FitPredicate where
  "neverFits pod existing node = (False, None)"

definition cpuShort :: FitPredicate where
  "cpuShort pod existing node = (False, Some (InsufficientResourceError ''cpu''))"

definition alwaysErrors :: FitPredicate where
  "alwaysErrors pod existing node = (False, Some (OtherError ''boom''))"

definition fitsOnM1 :: FitPredicate where
  "fitsOnM1 pod existing node = (node = ''m1'', None)"

definition scoreOne :: "NodeList \<Rightarrow> HostPriorityList" where
  "scoreOne nodes = map (\<lambda>node. \<lparr>Host = Name node, Score = 1\<rparr>) nodes"

definition keepAll :: SchedulerExtender where
  "keepAll = \<lparr>Filter = (\<lambda>pod nodes. Inr nodes),
               Prioritize = (\<lambda>pod nodes. Inr (scoreOne nodes, 1))\<rparr>"

definition dropAll :: SchedulerExtender where
  "dropAll = \<lparr>Filter = (\<lambda>pod nodes. Inr []),
               Prioritize = (\<lambda>pod nodes. Inr (scoreOne nodes, 1))\<rparr>"

definition failingFilter :: SchedulerExtender where
  "failingFilter = \<lparr>Filter = (\<lambda>pod nodes. Inl (OtherError ''extender down'')),
                     Prioritize = (\<lambda>pod nodes. Inr (scoreOne nodes, 1))\<rparr>"

definition failingPriority :: PriorityFunction where
  "failingPriority pod machinesToPods podLister nodeLister = Inl (OtherError ''priority failed'')"

definition equalScores :: PriorityFunction where
  "equalScores pod machinesToPods podLister nodeLister =
     (case EqualPriority pod machinesToPods podLister nodeLister of
        (prioritizedList, Some err) \<Rightarrow> Inl err
      | (prioritizedList, None) \<Rightarrow> Inr prioritizedList)"

definition noneFinished :: "nat \<Rightarrow> bool" where
  "noneFinished i = False"

definition allFinished :: "nat \<Rightarrow> bool" where
  "allFinished i = True"

text \<open>The choice of \<open>PopAny\<close> on the set \<open>{cpu}\<close>, which leaves no other.\<close>

definition pickCpu :: "string set \<Rightarrow> string" where
  "pickCpu s = ''cpu''"

section \<open>Filter stage: predicates\<close>

lemma predicateLoop_passing_prefix:
  assumes "\<forall>(n, q) \<in> set pre. q pod (m2p (Name node)) (Name node) = (True, None)"
  shows "predicateLoop pod m2p node (pre @ rest) fm =
           (fst (predicateLoop pod m2p node rest fm),
            map (\<lambda>(n, q). PredicateCall n (Name node)) pre @
              snd (predicateLoop pod m2p node rest fm))"
  using assms
  by (induction pre) (auto split: prod.splits)

text \<open>
  Claim C5. For one candidate, let the predicates enumerated before \<open>p\<close> all report a fit
  and let \<open>p\<close> report the candidate unfit (with no error, or with a resource
  insufficiency). Then the evaluation for this candidate ends with \<open>p\<close>: the candidate
  is rejected with the reason of \<open>p\<close>, the calls made are those up to \<open>p\<close> and no other,
  and the outcome is the same whatever predicates \<open>post\<close> would have come next, so an
  error of a later predicate cannot surface.
\<close>

theorem predicate_short_circuit:
  assumes pre: "\<forall>(n, q) \<in> set pre. q pod (m2p (Name node)) (Name node) = (True, None)"
    and unfit: "p pod (m2p (Name node)) (Name node) = (False, err)"
    and kind: "err = None \<or> (\<exists>r. err = Some (InsufficientResourceError r))"
  shows "predicateLoop pod m2p node (pre @ (name, p) # post) fm =
           (Inr (False, recordFailure fm (Name node) (failureReason name err)),
            map (\<lambda>(n, q). PredicateCall n (Name node)) pre @ [PredicateCall name (Name node)])"
proof -
  from kind have noabort: "predicateError False err = None"
    by auto
  have "predicateLoop pod m2p node ((name, p) # post) fm =
          (Inr (False, recordFailure fm (Name node) (failureReason name err)),
           [PredicateCall name (Name node)])"
    using unfit noabort by simp
  with predicateLoop_passing_prefix [of pre pod m2p node "(name, p) # post" fm] pre
  show ?thesis by simp
qed

theorem predicate_short_circuit_witness:
  "predicateLoop pod0 noPods (MkNode ''m1'')
     [(''ports'', alwaysFits), (''first'', neverFits), (''second'', alwaysErrors)] Map.empty =
   (Inr (False, recordFailure Map.empty ''m1'' ''first''),
    [PredicateCall ''ports'' ''m1'', PredicateCall ''first'' ''m1''])"
proof -
  have pre: "\<forall>(n, q) \<in> set [(''ports'', alwaysFits)].
               q pod0 (noPods (Name (MkNode ''m1''))) (Name (MkNode ''m1'')) = (True, None)"
    by (simp add: alwaysFits_def)
  have unfit: "neverFits pod0 (noPods (Name (MkNode ''m1''))) (Name (MkNode ''m1'')) = (False, None)"
    by (simp add: neverFits_def)
  have kind: "(None :: error option) = None \<or> (\<exists>r. None = Some (InsufficientResourceError r))"
    by simp
  from predicate_short_circuit [of "[(''ports'', alwaysFits)]" pod0 noPods "MkNode ''m1''"
      neverFits None "''first''" "[(''second'', alwaysErrors)]" Map.empty] pre unfit kind
  show ?thesis by simp
qed

lemma recordFailure_same:
  "recordFailure fm node reason node =
     Some (insert reason (case fm node of None \<Rightarrow> {} | Some s \<Rightarrow> s))"
  by (simp add: recordFailure_def split: option.splits)

lemma recordFailure_other:
  "other \<noteq> node \<Longrightarrow> recordFailure fm node reason other = fm other"
  by (simp add: recordFailure_def split: option.splits)

lemma predicateLoop_first_rejects:
  assumes "ps \<noteq> []"
    and "\<forall>(n, q) \<in> set ps. q pod (m2p (Name node)) (Name node) = (False, Some (InsufficientResourceError r))"
  shows "fst (predicateLoop pod m2p node ps fm) = Inr (False, recordFailure fm (Name node) r)"
  using assms by (cases ps) auto

lemma nodeLoop_all_insufficient:
  assumes "ps \<noteq> []"
    and "\<forall>(n, q) \<in> set ps. \<forall>node \<in> set nodes.
           q pod (m2p (Name node)) (Name node) = (False, Some (InsufficientResourceError r))"
  shows "fst (nodeLoop pod m2p ps nodes filtered fm) =
           Inr (filtered,
                (\<lambda>nm. if nm \<in> Name ` set nodes
                      then Some (insert r (case fm nm of None \<Rightarrow> {} | Some s \<Rightarrow> s))
                      else fm nm))"
  using assms(2)
proof (induction nodes arbitrary: fm)
  case Nil
  then show ?case by simp
next
  case (Cons node nodes)
  have here: "\<forall>(n, q) \<in> set ps. q pod (m2p (Name node)) (Name node) = (False, Some (InsufficientResourceError r))"
    using Cons.prems by auto
  have rest: "\<forall>(n, q) \<in> set ps. \<forall>node \<in> set nodes.
           q pod (m2p (Name node)) (Name node) = (False, Some (InsufficientResourceError r))"
    using Cons.prems by auto
  from predicateLoop_first_rejects [of ps pod m2p node r fm] assms(1) here
  obtain log where pl: "predicateLoop pod m2p node ps fm = (Inr (False, recordFailure fm (Name node) r), log)"
    by (cases "predicateLoop pod m2p node ps fm") auto
  have "fst (nodeLoop pod m2p ps (node # nodes) filtered fm) =
          fst (nodeLoop pod m2p ps nodes filtered (recordFailure fm (Name node) r))"
    using pl by (simp split: prod.splits)
  also have "\<dots> = Inr (filtered,
                (\<lambda>nm. if nm \<in> Name ` set nodes
                      then Some (insert r (case recordFailure fm (Name node) r nm of None \<Rightarrow> {} | Some s \<Rightarrow> s))
                      else recordFailure fm (Name node) r nm))"
    using Cons.IH [OF rest] .
  also have "(\<lambda>nm. if nm \<in> Name ` set nodes
                      then Some (insert r (case recordFailure fm (Name node) r nm of None \<Rightarrow> {} | Some s \<Rightarrow> s))
                      else recordFailure fm (Name node) r nm) =
             (\<lambda>nm. if nm \<in> Name ` set (node # nodes)
                      then Some (insert r (case fm nm of None \<Rightarrow> {} | Some s \<Rightarrow> s))
                      else fm nm)"
  proof
    fix nm
    show "(if nm \<in> Name ` set nodes
                      then Some (insert r (case recordFailure fm (Name node) r nm of None \<Rightarrow> {} | Some s \<Rightarrow> s))
                      else recordFailure fm (Name node) r nm) =
          (if nm \<in> Name ` set (node # nodes)
                      then Some (insert r (case fm nm of None \<Rightarrow> {} | Some s \<Rightarrow> s))
                      else fm nm)"
      by (cases "nm = Name node") (auto simp: recordFailure_same recordFailure_other)
  qed
  finally show ?case .
qed

text \<open>
  Claim C6. When the predicate that ends the evaluation of a candidate rejects it with a
  resource insufficiency, the reason inserted into the candidate's set of the failure map
  is the name of the resource; when it rejects it with no error, the reason inserted is
  the predicate's own name. In particular, when every registered predicate signals an
  insufficiency of \<open>cpu\<close> on every candidate (and at least one is registered), the
  Filter Stage returns no survivor and a failure map holding exactly \<open>{cpu}\<close> for
  every candidate and nothing else.
\<close>

theorem failure_reason_recorded:
  "((\<forall>(n, q) \<in> set pre. q pod (m2p (Name node)) (Name node) = (True, None)) \<and>
      p pod (m2p (Name node)) (Name node) = (False, Some (InsufficientResourceError r)) \<longrightarrow>
      (\<exists>fm'. fst (predicateLoop pod m2p node (pre @ (name, p) # post) fm) = Inr (False, fm') \<and>
         fm' (Name node) = Some (insert r (case fm (Name node) of None \<Rightarrow> {} | Some s \<Rightarrow> s))))
   \<and> ((\<forall>(n, q) \<in> set pre. q pod (m2p (Name node)) (Name node) = (True, None)) \<and>
      p pod (m2p (Name node)) (Name node) = (False, None) \<longrightarrow>
      (\<exists>fm'. fst (predicateLoop pod m2p node (pre @ (name, p) # post) fm) = Inr (False, fm') \<and>
         fm' (Name node) = Some (insert name (case fm (Name node) of None \<Rightarrow> {} | Some s \<Rightarrow> s))))
   \<and> (predicateFuncs \<noteq> [] \<and>
      (\<forall>(n, q) \<in> set predicateFuncs. \<forall>candidate \<in> set nodes.
         q pod (m2p (Name candidate)) (Name candidate) = (False, Some (InsufficientResourceError ''cpu''))) \<longrightarrow>
      fst (findNodesThatFit pod m2p predicateFuncs nodes exts) =
        ([], (\<lambda>nm. if nm \<in> Name ` set nodes then Some {''cpu''} else None), None))"
proof (intro conjI impI)
  assume a: "(\<forall>(n, q) \<in> set pre. q pod (m2p (Name node)) (Name node) = (True, None)) \<and>
      p pod (m2p (Name node)) (Name node) = (False, Some (InsufficientResourceError r))"
  have "predicateLoop pod m2p node ((name, p) # post) fm =
          (Inr (False, recordFailure fm (Name node) r), [PredicateCall name (Name node)])"
    using a by simp
  with predicateLoop_passing_prefix [of pre pod m2p node "(name, p) # post" fm] a
  have "fst (predicateLoop pod m2p node (pre @ (name, p) # post) fm) =
          Inr (False, recordFailure fm (Name node) r)"
    by simp
  then show "\<exists>fm'. fst (predicateLoop pod m2p node (pre @ (name, p) # post) fm) = Inr (False, fm') \<and>
         fm' (Name node) = Some (insert r (case fm (Name node) of None \<Rightarrow> {} | Some s \<Rightarrow> s))"
    by (simp add: recordFailure_same)
next
  assume a: "(\<forall>(n, q) \<in> set pre. q pod (m2p (Name node)) (Name node) = (True, None)) \<and>
      p pod (m2p (Name node)) (Name node) = (False, None)"
  have "predicateLoop pod m2p node ((name, p) # post) fm =
          (Inr (False, recordFailure fm (Name node) name), [PredicateCall name (Name node)])"
    using a by simp
  with predicateLoop_passing_prefix [of pre pod m2p node "(name, p) # post" fm] a
  have "fst (predicateLoop pod m2p node (pre @ (name, p) # post) fm) =
          Inr (False, recordFailure fm (Name node) name)"
    by simp
  then show "\<exists>fm'. fst (predicateLoop pod m2p node (pre @ (name, p) # post) fm) = Inr (False, fm') \<and>
         fm' (Name node) = Some (insert name (case fm (Name node) of None \<Rightarrow> {} | Some s \<Rightarrow> s))"
    by (simp add: recordFailure_same)
next
  assume a: "predicateFuncs \<noteq> [] \<and>
      (\<forall>(n, q) \<in> set predicateFuncs. \<forall>candidate \<in> set nodes.
         q pod (m2p (Name candidate)) (Name candidate) = (False, Some (InsufficientResourceError ''cpu'')))"
  then have ne: "predicateFuncs \<noteq> []" and all: "\<forall>(n, q) \<in> set predicateFuncs. \<forall>candidate \<in> set nodes.
         q pod (m2p (Name candidate)) (Name candidate) = (False, Some (InsufficientResourceError ''cpu''))"
    by auto
  from nodeLoop_all_insufficient [of predicateFuncs nodes pod m2p "''cpu''" "[]" Map.empty] ne all
  have "fst (nodeLoop pod m2p predicateFuncs nodes [] Map.empty) =
          Inr ([], (\<lambda>nm. if nm \<in> Name ` set nodes then Some {''cpu''} else None))"
    by (simp cong: if_cong)
  then obtain log where "nodeLoop pod m2p predicateFuncs nodes [] Map.empty =
          (Inr ([], (\<lambda>nm. if nm \<in> Name ` set nodes then Some {''cpu''} else None)), log)"
    by (cases "nodeLoop pod m2p predicateFuncs nodes [] Map.empty") auto
  then show "fst (findNodesThatFit pod m2p predicateFuncs nodes exts) =
        ([], (\<lambda>nm. if nm \<in> Name ` set nodes then Some {''cpu''} else None), None)"
    by (simp add: findNodesThatFit_def)
qed


theorem failure_reason_recorded_witness:
  "(\<exists>fm'. fst (predicateLoop pod0 noPods (MkNode ''m1'')
             ([(''ports'', alwaysFits)] @ (''resources'', cpuShort) # [(''second'', alwaysErrors)])
             Map.empty) = Inr (False, fm') \<and>
          fm' ''m1'' = Some {''cpu''})
   \<and> (\<exists>fm'. fst (predicateLoop pod0 noPods (MkNode ''m1'')
             ([(''ports'', alwaysFits)] @ (''first'', neverFits) # [(''second'', alwaysErrors)])
             Map.empty) = Inr (False, fm') \<and>
          fm' ''m1'' = Some {''first''})
   \<and> fst (findNodesThatFit pod0 noPods [(''resources'', cpuShort)]
            [MkNode ''m1'', MkNode ''m2''] []) =
         ([], (\<lambda>nm. if nm \<in> Name ` set [MkNode ''m1'', MkNode ''m2''] then Some {''cpu''} else None),
          None)"
proof -
  have pre: "\<forall>(n, q) \<in> set [(''ports'', alwaysFits)].
               q pod0 (noPods (Name (MkNode ''m1''))) (Name (MkNode ''m1'')) = (True, None)"
    by (simp add: alwaysFits_def)
  have cpu: "cpuShort pod0 (noPods (Name (MkNode ''m1''))) (Name (MkNode ''m1'')) =
               (False, Some (InsufficientResourceError ''cpu''))"
    by (simp add: cpuShort_def)
  have plain: "neverFits pod0 (noPods (Name (MkNode ''m1''))) (Name (MkNode ''m1'')) = (False, None)"
    by (simp add: neverFits_def)
  have every: "[(''resources'', cpuShort)] \<noteq> [] \<and>
      (\<forall>(n, q) \<in> set [(''resources'', cpuShort)]. \<forall>candidate \<in> set [MkNode ''m1'', MkNode ''m2''].
         q pod0 (noPods (Name candidate)) (Name candidate) =
           (False, Some (InsufficientResourceError ''cpu'')))"
    by (simp add: cpuShort_def)
  have one: "\<exists>fm'. fst (predicateLoop pod0 noPods (MkNode ''m1'')
             ([(''ports'', alwaysFits)] @ (''resources'', cpuShort) # [(''second'', alwaysErrors)])
             Map.empty) = Inr (False, fm') \<and>
          fm' ''m1'' = Some {''cpu''}"
    using failure_reason_recorded [where pre = "[(''ports'', alwaysFits)]" and pod = pod0
        and ?m2p = noPods and node = "MkNode ''m1''" and p = cpuShort and r = "''cpu''"
        and name = "''resources''" and post = "[(''second'', alwaysErrors)]" and fm = Map.empty,
        THEN conjunct1] pre cpu
    by simp
  have two: "\<exists>fm'. fst (predicateLoop pod0 noPods (MkNode ''m1'')
             ([(''ports'', alwaysFits)] @ (''first'', neverFits) # [(''second'', alwaysErrors)])
             Map.empty) = Inr (False, fm') \<and>
          fm' ''m1'' = Some {''first''}"
    using failure_reason_recorded [where pre = "[(''ports'', alwaysFits)]" and pod = pod0
        and ?m2p = noPods and node = "MkNode ''m1''" and p = neverFits
        and name = "''first''" and post = "[(''second'', alwaysErrors)]" and fm = Map.empty,
        THEN conjunct2, THEN conjunct1] pre plain
    by simp
  have three: "fst (findNodesThatFit pod0 noPods [(''resources'', cpuShort)]
            [MkNode ''m1'', MkNode ''m2''] []) =
         ([], (\<lambda>nm. if nm \<in> Name ` set [MkNode ''m1'', MkNode ''m2''] then Some {''cpu''} else None),
          None)"
    using failure_reason_recorded [where predicateFuncs = "[(''resources'', cpuShort)]"
        and pod = pod0 and ?m2p = noPods and nodes = "[MkNode ''m1'', MkNode ''m2'']"
        and exts = "[]", THEN conjunct2, THEN conjunct2] every
    by blast
  from one two three show ?thesis by blast
qed

section \<open>Filter stage: extenders\<close>

lemma extenderLoop_chain:
  "exts \<noteq> [] \<Longrightarrow>
   \<exists>inputs.
      snd (extenderLoop pod exts filtered) = map ExtenderFilter inputs
    \<and> inputs \<noteq> [] \<and> length inputs \<le> length exts \<and> hd inputs = filtered
    \<and> (\<forall>i. Suc i < length inputs \<longrightarrow>
           Filter (exts ! i) pod (inputs ! i) = Inr (inputs ! Suc i) \<and> inputs ! Suc i \<noteq> [])
    \<and> (case Filter (exts ! (length inputs - 1)) pod (last inputs) of
          Inl err \<Rightarrow> fst (extenderLoop pod exts filtered) = Inl err
        | Inr out \<Rightarrow> fst (extenderLoop pod exts filtered) = Inr out \<and>
                      (out = [] \<or> length inputs = length exts))"
proof (induction exts arbitrary: filtered)
  case Nil
  then show ?case by simp
next
  case (Cons e es)
  show ?case
  proof (cases "Filter e pod filtered")
    case (Inl err)
    then show ?thesis
      by (intro exI [of _ "[filtered]"]) simp
  next
    case (Inr out)
    show ?thesis
    proof (cases "out = [] \<or> es = []")
      case True
      with Inr show ?thesis
        by (intro exI [of _ "[filtered]"]) auto
    next
      case False
      then have out: "out \<noteq> []" and es: "es \<noteq> []" by auto
      from Cons.IH [OF es, of out] obtain inputs where
        log: "snd (extenderLoop pod es out) = map ExtenderFilter inputs"
        and ne: "inputs \<noteq> []" and len: "length inputs \<le> length es" and hd: "hd inputs = out"
        and chain: "\<forall>i. Suc i < length inputs \<longrightarrow>
           Filter (es ! i) pod (inputs ! i) = Inr (inputs ! Suc i) \<and> inputs ! Suc i \<noteq> []"
        and final: "(case Filter (es ! (length inputs - 1)) pod (last inputs) of
          Inl err \<Rightarrow> fst (extenderLoop pod es out) = Inl err
        | Inr out' \<Rightarrow> fst (extenderLoop pod es out) = Inr out' \<and>
                      (out' = [] \<or> length inputs = length es))"
        by blast
      have step: "extenderLoop pod (e # es) filtered =
                    (fst (extenderLoop pod es out), ExtenderFilter filtered # snd (extenderLoop pod es out))"
        using Inr out by (simp split: prod.splits)
      have first: "inputs ! 0 = out"
        using ne hd by (simp add: hd_conv_nth)
      have chain': "\<forall>i. Suc i < length (filtered # inputs) \<longrightarrow>
           Filter ((e # es) ! i) pod ((filtered # inputs) ! i) = Inr ((filtered # inputs) ! Suc i) \<and>
           (filtered # inputs) ! Suc i \<noteq> []"
      proof (intro allI impI)
        fix i
        assume i: "Suc i < length (filtered # inputs)"
        show "Filter ((e # es) ! i) pod ((filtered # inputs) ! i) = Inr ((filtered # inputs) ! Suc i) \<and>
           (filtered # inputs) ! Suc i \<noteq> []"
        proof (cases i)
          case 0
          then show ?thesis using Inr out first by simp
        next
          case (Suc j)
          with i have "Suc j < length inputs" by simp
          with chain Suc show ?thesis by simp
        qed
      qed
      have idx: "(e # es) ! (length (filtered # inputs) - 1) = es ! (length inputs - 1)"
        using ne by (cases inputs) auto
      have final': "(case Filter ((e # es) ! (length (filtered # inputs) - 1)) pod (last (filtered # inputs)) of
          Inl err \<Rightarrow> fst (extenderLoop pod (e # es) filtered) = Inl err
        | Inr out' \<Rightarrow> fst (extenderLoop pod (e # es) filtered) = Inr out' \<and>
                      (out' = [] \<or> length (filtered # inputs) = length (e # es)))"
        using final ne by (simp add: idx step del: extenderLoop.simps split: sum.splits)
      show ?thesis
        using log ne len chain' final'
        by (intro exI [of _ "filtered # inputs"]) (simp add: step del: extenderLoop.simps)
    qed
  qed
qed

text \<open>
  Claim C8. Let the predicates leave the survivors \<open>survivors\<close>, at least one, and let
  at least one extender be registered. Then the \<open>Filter\<close> calls of the stage are made
  on the extenders in registration order, from the first one: the first receives the
  survivors of the predicates, each next one exactly the list the previous one returned,
  and a next one is called only after a non-empty list was returned. The calls stop
  before the last extender only on an error or on an empty list. An error of a \<open>Filter\<close>
  is the error of the stage, returned with an empty node list and an empty failure map;
  otherwise the stage returns the list of the last extender called, with the failure
  map of the predicates.
\<close>

theorem extenders_filter_in_order:
  assumes preds: "nodeLoop pod m2p ps nodes [] Map.empty = (Inr (survivors, fm), plog)"
    and some: "survivors \<noteq> []"
    and exts: "exts \<noteq> []"
  shows "\<exists>inputs.
      snd (findNodesThatFit pod m2p ps nodes exts) = plog @ map ExtenderFilter inputs
    \<and> inputs \<noteq> [] \<and> length inputs \<le> length exts \<and> hd inputs = survivors
    \<and> (\<forall>i. Suc i < length inputs \<longrightarrow>
           Filter (exts ! i) pod (inputs ! i) = Inr (inputs ! Suc i) \<and> inputs ! Suc i \<noteq> [])
    \<and> (case Filter (exts ! (length inputs - 1)) pod (last inputs) of
          Inl err \<Rightarrow> fst (findNodesThatFit pod m2p ps nodes exts) = ([], Map.empty, Some err)
        | Inr out \<Rightarrow> fst (findNodesThatFit pod m2p ps nodes exts) = (out, fm, None) \<and>
                      (out = [] \<or> length inputs = length exts))"
proof -
  from extenderLoop_chain [OF exts, of pod survivors] obtain inputs where
    log: "snd (extenderLoop pod exts survivors) = map ExtenderFilter inputs"
    and ne: "inputs \<noteq> []" and len: "length inputs \<le> length exts" and hd: "hd inputs = survivors"
    and chain: "\<forall>i. Suc i < length inputs \<longrightarrow>
           Filter (exts ! i) pod (inputs ! i) = Inr (inputs ! Suc i) \<and> inputs ! Suc i \<noteq> []"
    and final: "(case Filter (exts ! (length inputs - 1)) pod (last inputs) of
          Inl err \<Rightarrow> fst (extenderLoop pod exts survivors) = Inl err
        | Inr out \<Rightarrow> fst (extenderLoop pod exts survivors) = Inr out \<and>
                      (out = [] \<or> length inputs = length exts))"
    by blast
  have stage: "findNodesThatFit pod m2p ps nodes exts =
      (case extenderLoop pod exts survivors of
         (Inl err, log') \<Rightarrow> (([], Map.empty, Some err), plog @ log')
       | (Inr filtered', log') \<Rightarrow> ((filtered', fm, None), plog @ log'))"
    using preds some exts by (simp add: findNodesThatFit_def)
  have l: "snd (findNodesThatFit pod m2p ps nodes exts) = plog @ map ExtenderFilter inputs"
    using log by (cases "extenderLoop pod exts survivors") (auto simp: stage split: sum.splits)
  have f: "(case Filter (exts ! (length inputs - 1)) pod (last inputs) of
          Inl err \<Rightarrow> fst (findNodesThatFit pod m2p ps nodes exts) = ([], Map.empty, Some err)
        | Inr out \<Rightarrow> fst (findNodesThatFit pod m2p ps nodes exts) = (out, fm, None) \<and>
                      (out = [] \<or> length inputs = length exts))"
    using final by (cases "extenderLoop pod exts survivors") (auto simp: stage split: sum.splits)
  from l ne len hd chain f show ?thesis by blast
qed


theorem extenders_filter_in_order_witness:
  "(\<exists>inputs.
      snd (findNodesThatFit pod0 noPods [(''ports'', alwaysFits)] [MkNode ''m1'', MkNode ''m2''] [keepAll, dropAll, failingFilter]) =
        [PredicateCall ''ports'' ''m1'', PredicateCall ''ports'' ''m2''] @ map ExtenderFilter inputs
    \<and> inputs \<noteq> [] \<and> length inputs \<le> length [keepAll, dropAll, failingFilter]
    \<and> hd inputs = [MkNode ''m1'', MkNode ''m2'']
    \<and> (\<forall>i. Suc i < length inputs \<longrightarrow>
           Filter ([keepAll, dropAll, failingFilter] ! i) pod0 (inputs ! i) = Inr (inputs ! Suc i) \<and> inputs ! Suc i \<noteq> [])
    \<and> (case Filter ([keepAll, dropAll, failingFilter] ! (length inputs - 1)) pod0 (last inputs) of
          Inl err \<Rightarrow> fst (findNodesThatFit pod0 noPods [(''ports'', alwaysFits)]
                            [MkNode ''m1'', MkNode ''m2''] [keepAll, dropAll, failingFilter]) = ([], Map.empty, Some err)
        | Inr out \<Rightarrow> fst (findNodesThatFit pod0 noPods [(''ports'', alwaysFits)]
                            [MkNode ''m1'', MkNode ''m2''] [keepAll, dropAll, failingFilter]) = (out, Map.empty, None) \<and>
                      (out = [] \<or> length inputs = length [keepAll, dropAll, failingFilter])))
   \<and> (\<exists>inputs.
      snd (findNodesThatFit pod0 noPods [(''ports'', alwaysFits)] [MkNode ''m1'', MkNode ''m2''] [keepAll, failingFilter]) =
        [PredicateCall ''ports'' ''m1'', PredicateCall ''ports'' ''m2''] @ map ExtenderFilter inputs
    \<and> inputs \<noteq> [] \<and> length inputs \<le> length [keepAll, failingFilter]
    \<and> hd inputs = [MkNode ''m1'', MkNode ''m2'']
    \<and> (\<forall>i. Suc i < length inputs \<longrightarrow>
           Filter ([keepAll, failingFilter] ! i) pod0 (inputs ! i) = Inr (inputs ! Suc i) \<and> inputs ! Suc i \<noteq> [])
    \<and> (case Filter ([keepAll, failingFilter] ! (length inputs - 1)) pod0 (last inputs) of
          Inl err \<Rightarrow> fst (findNodesThatFit pod0 noPods [(''ports'', alwaysFits)]
                            [MkNode ''m1'', MkNode ''m2''] [keepAll, failingFilter]) = ([], Map.empty, Some err)
        | Inr out \<Rightarrow> fst (findNodesThatFit pod0 noPods [(''ports'', alwaysFits)]
                            [MkNode ''m1'', MkNode ''m2''] [keepAll, failingFilter]) = (out, Map.empty, None) \<and>
                      (out = [] \<or> length inputs = length [keepAll, failingFilter])))
   \<and> findNodesThatFit pod0 noPods [(''ports'', alwaysFits)] [MkNode ''m1'', MkNode ''m2'']
         [keepAll, dropAll, failingFilter] =
       (([], Map.empty, None),
        [PredicateCall ''ports'' ''m1'', PredicateCall ''ports'' ''m2'',
         ExtenderFilter [MkNode ''m1'', MkNode ''m2''], ExtenderFilter [MkNode ''m1'', MkNode ''m2'']])
   \<and> findNodesThatFit pod0 noPods [(''ports'', alwaysFits)] [MkNode ''m1'', MkNode ''m2'']
         [keepAll, failingFilter] =
       (([], Map.empty, Some (OtherError ''extender down'')),
        [PredicateCall ''ports'' ''m1'', PredicateCall ''ports'' ''m2'',
         ExtenderFilter [MkNode ''m1'', MkNode ''m2''], ExtenderFilter [MkNode ''m1'', MkNode ''m2'']])"
proof -
  have preds: "nodeLoop pod0 noPods [(''ports'', alwaysFits)] [MkNode ''m1'', MkNode ''m2''] [] Map.empty =
                 (Inr ([MkNode ''m1'', MkNode ''m2''], Map.empty),
                  [PredicateCall ''ports'' ''m1'', PredicateCall ''ports'' ''m2''])"
    by (simp add: alwaysFits_def)
  have some: "[MkNode ''m1'', MkNode ''m2''] \<noteq> []"
    by simp
  have three: "[keepAll, dropAll, failingFilter] \<noteq> []" and two: "[keepAll, failingFilter] \<noteq> []"
    by simp_all
  note a = extenders_filter_in_order [OF preds some three]
  note b = extenders_filter_in_order [OF preds some two]
  have c: "findNodesThatFit pod0 noPods [(''ports'', alwaysFits)] [MkNode ''m1'', MkNode ''m2'']
         [keepAll, dropAll, failingFilter] =
       (([], Map.empty, None),
        [PredicateCall ''ports'' ''m1'', PredicateCall ''ports'' ''m2'',
         ExtenderFilter [MkNode ''m1'', MkNode ''m2''], ExtenderFilter [MkNode ''m1'', MkNode ''m2'']])"
    by (simp add: findNodesThatFit_def alwaysFits_def keepAll_def dropAll_def)
  have d: "findNodesThatFit pod0 noPods [(''ports'', alwaysFits)] [MkNode ''m1'', MkNode ''m2'']
         [keepAll, failingFilter] =
       (([], Map.empty, Some (OtherError ''extender down'')),
        [PredicateCall ''ports'' ''m1'', PredicateCall ''ports'' ''m2'',
         ExtenderFilter [MkNode ''m1'', MkNode ''m2''], ExtenderFilter [MkNode ''m1'', MkNode ''m2'']])"
    by (simp add: findNodesThatFit_def alwaysFits_def keepAll_def failingFilter_def)
  from a b c d show ?thesis by (intro conjI)
qed

section \<open>\<open>Schedule\<close>: no candidates, no fit\<close>

text \<open>
  Claim C9. When the lister returns an empty list (and no error), \<open>Schedule\<close> returns
  \<open>ErrNoNodesAvailable\<close>. When it returns candidates and the Filter Stage returns no
  survivor (and no error) with the failure map \<open>fm\<close>, \<open>Schedule\<close> returns a \<open>FitError\<close>
  carrying the pod and \<open>fm\<close>. The two errors are different values, and both come with
  the empty string in place of a winner.
\<close>

theorem Schedule_no_nodes_versus_no_fit:
  "(NodeLister_List nodeLister = ([], None) \<longrightarrow>
      fst (Schedule M g pod nodeLister finished rnd) = ('''', Some ErrNoNodesAvailable))
   \<and> (NodeLister_List nodeLister = (nodes, None) \<and> nodes \<noteq> [] \<and> M (pods g) = Inr m2p \<and>
      fst (findNodesThatFit pod m2p (predicates g) nodes (extenders g)) = ([], fm, None) \<longrightarrow>
      fst (Schedule M g pod nodeLister finished rnd) =
        ('''', Some (FitErr \<lparr>Pod = pod, FailedPredicates = fm\<rparr>)))
   \<and> ErrNoNodesAvailable \<noteq> FitErr \<lparr>Pod = pod, FailedPredicates = fm\<rparr>"
proof (intro conjI impI)
  assume "NodeLister_List nodeLister = ([], None)"
  then show "fst (Schedule M g pod nodeLister finished rnd) = ('''', Some ErrNoNodesAvailable)"
    by (simp add: Schedule_def)
next
  assume a: "NodeLister_List nodeLister = (nodes, None) \<and> nodes \<noteq> [] \<and> M (pods g) = Inr m2p \<and>
      fst (findNodesThatFit pod m2p (predicates g) nodes (extenders g)) = ([], fm, None)"
  then obtain log where
    "findNodesThatFit pod m2p (predicates g) nodes (extenders g) = (([], fm, None), log)"
    by (cases "findNodesThatFit pod m2p (predicates g) nodes (extenders g)") auto
  with a show "fst (Schedule M g pod nodeLister finished rnd) =
        ('''', Some (FitErr \<lparr>Pod = pod, FailedPredicates = fm\<rparr>))"
    by (simp add: Schedule_def)
next
  show "ErrNoNodesAvailable \<noteq> FitErr \<lparr>Pod = pod, FailedPredicates = fm\<rparr>"
    by simp
qed

theorem Schedule_no_nodes_versus_no_fit_witness:
  "fst (Schedule mapPodsOk
          \<lparr>predicates = [(''ports'', neverFits)], prioritizers = [], extenders = [], pods = []\<rparr>
          pod0 (Lister (Inr [])) noneFinished 0) = ('''', Some ErrNoNodesAvailable)
   \<and> fst (Schedule mapPodsOk
          \<lparr>predicates = [(''ports'', neverFits)], prioritizers = [], extenders = [], pods = []\<rparr>
          pod0 (Lister (Inr [MkNode ''m1''])) noneFinished 0) =
       ('''', Some (FitErr \<lparr>Pod = pod0, FailedPredicates = [''m1'' \<mapsto> {''ports''}]\<rparr>))
   \<and> ErrNoNodesAvailable \<noteq> FitErr \<lparr>Pod = pod0, FailedPredicates = [''m1'' \<mapsto> {''ports''}]\<rparr>"
proof -
  let ?g = "\<lparr>predicates = [(''ports'', neverFits)], prioritizers = [], extenders = [], pods = []\<rparr>"
  have empty: "NodeLister_List (Lister (Inr [])) = ([], None)"
    by simp
  have nofit: "NodeLister_List (Lister (Inr [MkNode ''m1''])) = ([MkNode ''m1''], None) \<and>
      [MkNode ''m1''] \<noteq> [] \<and> mapPodsOk (pods ?g) = Inr noPods \<and>
      fst (findNodesThatFit pod0 noPods (predicates ?g) [MkNode ''m1''] (extenders ?g)) =
        ([], [''m1'' \<mapsto> {''ports''}], None)"
    by (simp add: mapPodsOk_def findNodesThatFit_def neverFits_def recordFailure_def)
  from Schedule_no_nodes_versus_no_fit [of "Lister (Inr [])" mapPodsOk ?g pod0 noneFinished 0
      "[]" noPods "[''m1'' \<mapsto> {''ports''}]"] empty
  have one: "fst (Schedule mapPodsOk ?g pod0 (Lister (Inr [])) noneFinished 0) =
               ('''', Some ErrNoNodesAvailable)"
    by blast
  from Schedule_no_nodes_versus_no_fit [of "Lister (Inr [MkNode ''m1''])" mapPodsOk ?g pod0
      noneFinished 0 "[MkNode ''m1'']" noPods "[''m1'' \<mapsto> {''ports''}]"] nofit
  have two: "fst (Schedule mapPodsOk ?g pod0 (Lister (Inr [MkNode ''m1''])) noneFinished 0) =
       ('''', Some (FitErr \<lparr>Pod = pod0, FailedPredicates = [''m1'' \<mapsto> {''ports''}]\<rparr>))"
    and three: "ErrNoNodesAvailable \<noteq> FitErr \<lparr>Pod = pod0, FailedPredicates = [''m1'' \<mapsto> {''ports''}]\<rparr>"
    by blast+
  from one two three show ?thesis by (intro conjI)
qed

section \<open>The failure map holds the rejections of predicates only\<close>

lemma dom_recordFailure:
  "dom (recordFailure fm node reason) = insert node (dom fm)"
  by (auto simp: recordFailure_def split: option.splits if_splits)

lemma predicateLoop_Cons_fst:
  "fst (predicateLoop pod m2p n ((name, p) # rest) fm) =
     (case p pod (m2p (Name n)) (Name n) of (fit, err) \<Rightarrow>
        (case predicateError fit err of
           Some e \<Rightarrow> Inl e
         | None \<Rightarrow>
             if \<not> fit then Inr (False, recordFailure fm (Name n) (failureReason name err))
             else fst (predicateLoop pod m2p n rest fm)))"
  by (simp split: prod.splits option.splits)

lemma predicateLoop_fits:
  "fst (predicateLoop pod m2p n ps fm) = Inr (True, fm') \<Longrightarrow>
     fm' = fm \<and> fst (predicateLoop pod m2p n ps fm2) = Inr (True, fm2)"
proof (induction ps)
  case Nil
  then show ?case by simp
next
  case (Cons np rest)
  obtain name p where np: "np = (name, p)" by (cases np)
  obtain fit err where call: "p pod (m2p (Name n)) (Name n) = (fit, err)"
    by (cases "p pod (m2p (Name n)) (Name n)")
  from Cons.prems have ok: "predicateError fit err = None" and fit: "fit"
    and rest: "fst (predicateLoop pod m2p n rest fm) = Inr (True, fm')"
    unfolding np predicateLoop_Cons_fst call
    by (auto split: option.splits if_splits)
  from Cons.IH [OF rest] ok fit show ?case
    unfolding np predicateLoop_Cons_fst call by auto
qed

lemma predicateLoop_rejects:
  "fst (predicateLoop pod m2p n ps fm) = Inr (False, fm') \<Longrightarrow>
     dom fm' = insert (Name n) (dom fm) \<and>
     (\<exists>fm2'. fst (predicateLoop pod m2p n ps fm2) = Inr (False, fm2'))"
proof (induction ps)
  case Nil
  then show ?case by simp
next
  case (Cons np rest)
  obtain name p where np: "np = (name, p)" by (cases np)
  obtain fit err where call: "p pod (m2p (Name n)) (Name n) = (fit, err)"
    by (cases "p pod (m2p (Name n)) (Name n)")
  from Cons.prems have ok: "predicateError fit err = None"
    unfolding np predicateLoop_Cons_fst call
    by (auto split: option.splits)
  show ?case
  proof (cases fit)
    case True
    with Cons.prems ok have "fst (predicateLoop pod m2p n rest fm) = Inr (False, fm')"
      unfolding np predicateLoop_Cons_fst call by simp
    from Cons.IH [OF this] True ok show ?thesis
      unfolding np predicateLoop_Cons_fst call by simp
  next
    case False
    with Cons.prems ok have "fm' = recordFailure fm (Name n) (failureReason name err)"
      unfolding np predicateLoop_Cons_fst call by simp
    with False ok show ?thesis
      unfolding np predicateLoop_Cons_fst call by (simp add: dom_recordFailure)
  qed
qed

lemma nodeLoop_survivors:
  "nodeLoop pod m2p ps nodes filtered fm = (Inr (filtered', fm'), log) \<Longrightarrow>
     filtered' = filtered @
        filter (\<lambda>n. fst (predicateLoop pod m2p n ps Map.empty) = Inr (True, Map.empty)) nodes \<and>
     dom fm' = dom fm \<union>
        Name ` {n \<in> set nodes. fst (predicateLoop pod m2p n ps Map.empty) \<noteq> Inr (True, Map.empty)}"
proof (induction nodes arbitrary: filtered fm log)
  case Nil
  then show ?case by simp
next
  case (Cons node nodes)
  obtain r l where pl: "predicateLoop pod m2p node ps fm = (r, l)"
    by (cases "predicateLoop pod m2p node ps fm")
  show ?case
  proof (cases r)
    case (Inl e)
    with Cons.prems pl show ?thesis by simp
  next
    case (Inr v)
    obtain fits fm1 where v: "v = (fits, fm1)" by (cases v)
    obtain r2 l2 where nl: "nodeLoop pod m2p ps nodes (if fits then filtered @ [node] else filtered) fm1 = (r2, l2)"
      by (cases "nodeLoop pod m2p ps nodes (if fits then filtered @ [node] else filtered) fm1")
    from Cons.prems pl Inr v nl have r2: "r2 = Inr (filtered', fm')"
      by simp
    note ih = Cons.IH [OF nl [unfolded r2]]
    show ?thesis
    proof (cases fits)
      case True
      from pl Inr v True have "fst (predicateLoop pod m2p node ps fm) = Inr (True, fm1)"
        by simp
      from predicateLoop_fits [OF this, of Map.empty]
      have "fm1 = fm" and "fst (predicateLoop pod m2p node ps Map.empty) = Inr (True, Map.empty)"
        by auto
      with ih True show ?thesis by auto
    next
      case False
      from pl Inr v False have rej: "fst (predicateLoop pod m2p node ps fm) = Inr (False, fm1)"
        by simp
      from predicateLoop_rejects [OF rej, of Map.empty]
      have d: "dom fm1 = insert (Name node) (dom fm)"
        and "fst (predicateLoop pod m2p node ps Map.empty) \<noteq> Inr (True, Map.empty)"
        by auto
      with ih False show ?thesis by auto
    qed
  qed
qed

lemma findNodesThatFit_failure_map:
  assumes "nodeLoop pod m2p ps nodes [] Map.empty = (Inr (survivors, fm), plog)"
    and "findNodesThatFit pod m2p ps nodes exts = ((filtered, fm', None), log)"
  shows "fm' = fm"
  using assms
  by (auto simp: findNodesThatFit_def split: if_splits prod.splits sum.splits)

text \<open>
  Claim C10. Let the predicates leave the survivors \<open>survivors\<close> and the failure map
  \<open>fm\<close>. Whatever the extenders do, the failure map that the Filter Stage returns
  without an error is \<open>fm\<close>: its entries are the candidates that a predicate rejected
  and no others, and no survivor of the predicates has an entry. Hence, when the
  extenders reject every survivor of the predicates, \<open>Schedule\<close> returns a \<open>FitError\<close>
  whose failure map is \<open>fm\<close>, without an entry for any candidate the extenders
  rejected; when every candidate passed the predicates this map is empty.
\<close>

theorem extender_rejections_not_recorded:
  assumes preds: "nodeLoop pod m2p (predicates g) nodes [] Map.empty = (Inr (survivors, fm), plog)"
  shows "(\<forall>filtered fm' log.
            findNodesThatFit pod m2p (predicates g) nodes (extenders g) = ((filtered, fm', None), log)
            \<longrightarrow> fm' = fm)
       \<and> (\<forall>n \<in> set survivors. fm (Name n) = None)
       \<and> dom fm = Name ` (set nodes - set survivors)
       \<and> (survivors = nodes \<longrightarrow> fm = Map.empty)
       \<and> (NodeLister_List nodeLister = (nodes, None) \<and> nodes \<noteq> [] \<and> M (pods g) = Inr m2p \<and>
          fst (fst (findNodesThatFit pod m2p (predicates g) nodes (extenders g))) = [] \<and>
          snd (snd (fst (findNodesThatFit pod m2p (predicates g) nodes (extenders g)))) = None
          \<longrightarrow> fst (Schedule M g pod nodeLister finished rnd) =
                 ('''', Some (FitErr \<lparr>Pod = pod, FailedPredicates = fm\<rparr>)))"
proof -
  let ?P = "\<lambda>n. fst (predicateLoop pod m2p n (predicates g) Map.empty) = Inr (True, Map.empty)"
  from nodeLoop_survivors [OF preds]
  have surv: "survivors = filter ?P nodes"
    and dom: "dom fm = Name ` {n \<in> set nodes. \<not> ?P n}"
    by auto
  have diff: "set nodes - set survivors = {n \<in> set nodes. \<not> ?P n}"
    unfolding surv by auto
  have d: "dom fm = Name ` (set nodes - set survivors)"
    using dom diff by simp
  have inj: "\<And>a b. Name a = Name b \<Longrightarrow> a = b"
    by (simp add: Node.expand)
  have none: "\<forall>n \<in> set survivors. fm (Name n) = None"
  proof
    fix n assume n: "n \<in> set survivors"
    have "Name n \<notin> Name ` (set nodes - set survivors)"
    proof
      assume "Name n \<in> Name ` (set nodes - set survivors)"
      then obtain k where k: "k \<in> set nodes - set survivors" and "Name n = Name k"
        by auto
      then have "n = k" using inj by simp
      with n k show False by simp
    qed
    with d have "Name n \<notin> dom fm"
      by simp
    then show "fm (Name n) = None"
      by (simp add: domIff)
  qed
  have all: "survivors = nodes \<longrightarrow> fm = Map.empty"
    using d by auto
  have same: "\<forall>filtered fm' log.
            findNodesThatFit pod m2p (predicates g) nodes (extenders g) = ((filtered, fm', None), log)
            \<longrightarrow> fm' = fm"
    using findNodesThatFit_failure_map [OF preds] by blast
  have sched: "NodeLister_List nodeLister = (nodes, None) \<and> nodes \<noteq> [] \<and> M (pods g) = Inr m2p \<and>
          fst (fst (findNodesThatFit pod m2p (predicates g) nodes (extenders g))) = [] \<and>
          snd (snd (fst (findNodesThatFit pod m2p (predicates g) nodes (extenders g)))) = None
          \<longrightarrow> fst (Schedule M g pod nodeLister finished rnd) =
                 ('''', Some (FitErr \<lparr>Pod = pod, FailedPredicates = fm\<rparr>))"
  proof
    assume a: "NodeLister_List nodeLister = (nodes, None) \<and> nodes \<noteq> [] \<and> M (pods g) = Inr m2p \<and>
          fst (fst (findNodesThatFit pod m2p (predicates g) nodes (extenders g))) = [] \<and>
          snd (snd (fst (findNodesThatFit pod m2p (predicates g) nodes (extenders g)))) = None"
    then obtain fm' log where
      f: "findNodesThatFit pod m2p (predicates g) nodes (extenders g) = (([], fm', None), log)"
      by (cases "findNodesThatFit pod m2p (predicates g) nodes (extenders g)") auto
    with same have "fm' = fm" by blast
    with a f show "fst (Schedule M g pod nodeLister finished rnd) =
                 ('''', Some (FitErr \<lparr>Pod = pod, FailedPredicates = fm\<rparr>))"
      by (simp add: Schedule_def)
  qed
  from same none d all sched show ?thesis by blast
qed

theorem extender_rejections_not_recorded_witness:
  "fst (Schedule mapPodsOk
          \<lparr>predicates = [(''onlyM1'', fitsOnM1)], prioritizers = [], extenders = [dropAll], pods = []\<rparr>
          pod0 (Lister (Inr [MkNode ''m1'', MkNode ''m2''])) noneFinished 0) =
     ('''', Some (FitErr \<lparr>Pod = pod0, FailedPredicates = [''m2'' \<mapsto> {''onlyM1''}]\<rparr>))
   \<and> [''m2'' \<mapsto> {''onlyM1''}] (Name (MkNode ''m1'')) = None
   \<and> fst (Schedule mapPodsOk
          \<lparr>predicates = [(''ports'', alwaysFits)], prioritizers = [], extenders = [dropAll], pods = []\<rparr>
          pod0 (Lister (Inr [MkNode ''m1'', MkNode ''m2''])) noneFinished 0) =
     ('''', Some (FitErr \<lparr>Pod = pod0, FailedPredicates = Map.empty\<rparr>))"
proof -
  let ?g1 = "\<lparr>predicates = [(''onlyM1'', fitsOnM1)], prioritizers = [], extenders = [dropAll], pods = []\<rparr>"
  let ?g2 = "\<lparr>predicates = [(''ports'', alwaysFits)], prioritizers = [], extenders = [dropAll], pods = []\<rparr>"
  let ?nodes = "[MkNode ''m1'', MkNode ''m2'']"
  have preds1: "nodeLoop pod0 noPods (predicates ?g1) ?nodes [] Map.empty =
                  (Inr ([MkNode ''m1''], [''m2'' \<mapsto> {''onlyM1''}]),
                   [PredicateCall ''onlyM1'' ''m1'', PredicateCall ''onlyM1'' ''m2''])"
    by (simp add: fitsOnM1_def recordFailure_def)
  have preds2: "nodeLoop pod0 noPods (predicates ?g2) ?nodes [] Map.empty =
                  (Inr (?nodes, Map.empty),
                   [PredicateCall ''ports'' ''m1'', PredicateCall ''ports'' ''m2''])"
    by (simp add: alwaysFits_def)
  have run1: "NodeLister_List (Lister (Inr ?nodes)) = (?nodes, None) \<and> ?nodes \<noteq> [] \<and>
          mapPodsOk (pods ?g1) = Inr noPods \<and>
          fst (fst (findNodesThatFit pod0 noPods (predicates ?g1) ?nodes (extenders ?g1))) = [] \<and>
          snd (snd (fst (findNodesThatFit pod0 noPods (predicates ?g1) ?nodes (extenders ?g1)))) = None"
    by (simp add: mapPodsOk_def findNodesThatFit_def fitsOnM1_def dropAll_def)
  have run2: "NodeLister_List (Lister (Inr ?nodes)) = (?nodes, None) \<and> ?nodes \<noteq> [] \<and>
          mapPodsOk (pods ?g2) = Inr noPods \<and>
          fst (fst (findNodesThatFit pod0 noPods (predicates ?g2) ?nodes (extenders ?g2))) = [] \<and>
          snd (snd (fst (findNodesThatFit pod0 noPods (predicates ?g2) ?nodes (extenders ?g2)))) = None"
    by (simp add: mapPodsOk_def findNodesThatFit_def alwaysFits_def dropAll_def)
  note t1 = extender_rejections_not_recorded [OF preds1, where nodeLister = "Lister (Inr ?nodes)"
      and M = mapPodsOk and finished = noneFinished and rnd = 0]
  note t2 = extender_rejections_not_recorded [OF preds2, where nodeLister = "Lister (Inr ?nodes)"
      and M = mapPodsOk and finished = noneFinished and rnd = 0]
  from t1 run1 have one: "fst (Schedule mapPodsOk ?g1 pod0 (Lister (Inr ?nodes)) noneFinished 0) =
     ('''', Some (FitErr \<lparr>Pod = pod0, FailedPredicates = [''m2'' \<mapsto> {''onlyM1''}]\<rparr>))"
    by blast
  from t1 have two: "[''m2'' \<mapsto> {''onlyM1''}] (Name (MkNode ''m1'')) = None"
    by simp
  from t2 run2 have three: "fst (Schedule mapPodsOk ?g2 pod0 (Lister (Inr ?nodes)) noneFinished 0) =
     ('''', Some (FitErr \<lparr>Pod = pod0, FailedPredicates = Map.empty\<rparr>))"
    by blast
  from one two three show ?thesis by (intro conjI)
qed

section \<open>Selector\<close>

lemma bestLoop_takeWhile:
  "bestLoop s l = map Host (takeWhile (\<lambda>entry. Score entry = s) l)"
  by (induction l) auto

lemma bestLoop_sorted:
  assumes "sorted (map (\<lambda>entry. - Score entry) l)"
    and "\<forall>entry \<in> set l. Score entry \<le> s"
  shows "set (bestLoop s l) = Host ` {entry \<in> set l. Score entry = s}"
  using assms
proof (induction l)
  case Nil
  then show ?case by simp
next
  case (Cons e rest)
  show ?case
  proof (cases "Score e = s")
    case True
    with Cons show ?thesis by auto
  next
    case False
    with Cons.prems have "Score e < s" by auto
    moreover from Cons.prems have "\<forall>x \<in> set rest. Score x \<le> Score e" by auto
    ultimately have "\<forall>x \<in> set rest. Score x \<noteq> s" by auto
    with False show ?thesis by auto
  qed
qed

lemma sortReverse_props:
  "set (sortReverse l) = set l"
  "length (sortReverse l) = length l"
  "sorted (map (\<lambda>entry. - Score entry) (sortReverse l))"
  by (simp_all add: sortReverse_def)

lemma best_hosts_of_sorted:
  assumes "l \<noteq> []"
  shows "set (getBestHosts (sortReverse l)) =
           Host ` {entry \<in> set l. Score entry = Max (Score ` set l)}"
    and "getBestHosts (sortReverse l) \<noteq> []"
    and "getBestHosts (sortReverse l) =
           map Host (takeWhile (\<lambda>entry. Score entry = Max (Score ` set l)) (sortReverse l))"
proof -
  from assms have "sortReverse l \<noteq> []"
    using sortReverse_props(2) [of l] by auto
  then obtain x xs where sl: "sortReverse l = x # xs"
    by (cases "sortReverse l") auto
  have sorted: "sorted (map (\<lambda>entry. - Score entry) (x # xs))"
    using sortReverse_props(3) [of l] sl by simp
  then have le: "\<forall>entry \<in> set (x # xs). Score entry \<le> Score x"
    by auto
  have setl: "set (x # xs) = set l"
    using sortReverse_props(1) [of l] sl by simp
  have "Max (Score ` set l) = Score x"
  proof (rule Max_eqI)
    show "finite (Score ` set l)" by simp
    show "\<And>y. y \<in> Score ` set l \<Longrightarrow> y \<le> Score x"
      using le setl by auto
    show "Score x \<in> Score ` set l"
      using setl by auto
  qed
  then have mx: "Score x = Max (Score ` set l)" by simp
  have g: "getBestHosts (sortReverse l) = bestLoop (Score x) (x # xs)"
    by (simp add: getBestHosts_def sl)
  from bestLoop_sorted [OF sorted le]
  show "set (getBestHosts (sortReverse l)) =
           Host ` {entry \<in> set l. Score entry = Max (Score ` set l)}"
    unfolding g setl mx .
  show "getBestHosts (sortReverse l) \<noteq> []"
    unfolding g by simp
  show "getBestHosts (sortReverse l) =
           map Host (takeWhile (\<lambda>entry. Score entry = Max (Score ` set l)) (sortReverse l))"
    by (simp only: sl getBestHosts_def list.case bestLoop_takeWhile mx)
qed

text \<open>
  Claim C7. \<open>selectHost\<close> returns an error exactly when the ranking is empty. For a
  ranking that is not empty and for every random draw, the host returned is the host of
  an entry of the ranking whose score is the greatest score in the ranking; the hosts
  drawn from are those of all entries of greatest score, and they are the longest prefix
  of such entries in the sorted ranking.
\<close>

theorem selectHost_picks_a_best_host:
  "(snd (selectHost rnd priorityList) \<noteq> None \<longleftrightarrow> priorityList = [])
   \<and> (priorityList \<noteq> [] \<longrightarrow>
        (\<exists>entry \<in> set priorityList.
            fst (selectHost rnd priorityList) = Host entry \<and>
            Score entry = Max (Score ` set priorityList))
      \<and> set (getBestHosts (sortReverse priorityList)) =
          Host ` {entry \<in> set priorityList. Score entry = Max (Score ` set priorityList)}
      \<and> getBestHosts (sortReverse priorityList) =
          map Host (takeWhile (\<lambda>entry. Score entry = Max (Score ` set priorityList))
                      (sortReverse priorityList)))"
proof (cases "priorityList = []")
  case True
  then show ?thesis by (simp add: selectHost_def)
next
  case False
  let ?hosts = "getBestHosts (sortReverse priorityList)"
  note best = best_hosts_of_sorted [OF False]
  have sel: "selectHost rnd priorityList = (?hosts ! (rnd mod length ?hosts), None)"
    using False best(2) by (simp add: selectHost_def Let_def)
  have "?hosts ! (rnd mod length ?hosts) \<in> set ?hosts"
    using best(2) by simp
  then have "?hosts ! (rnd mod length ?hosts) \<in>
      Host ` {entry \<in> set priorityList. Score entry = Max (Score ` set priorityList)}"
    using best(1) by simp
  then have "\<exists>entry \<in> set priorityList.
            fst (selectHost rnd priorityList) = Host entry \<and>
            Score entry = Max (Score ` set priorityList)"
    unfolding sel by auto
  with False best(1) best(3) sel show ?thesis by simp
qed

theorem selectHost_picks_a_best_host_witness:
  "snd (selectHost 1 []) \<noteq> None
   \<and> (\<exists>entry \<in> set [\<lparr>Host = ''a'', Score = 3\<rparr>, \<lparr>Host = ''b'', Score = 7\<rparr>, \<lparr>Host = ''c'', Score = 7\<rparr>].
        fst (selectHost 1 [\<lparr>Host = ''a'', Score = 3\<rparr>, \<lparr>Host = ''b'', Score = 7\<rparr>, \<lparr>Host = ''c'', Score = 7\<rparr>]) =
          Host entry \<and>
        Score entry =
          Max (Score ` set [\<lparr>Host = ''a'', Score = 3\<rparr>, \<lparr>Host = ''b'', Score = 7\<rparr>, \<lparr>Host = ''c'', Score = 7\<rparr>]))
   \<and> selectHost 1 [\<lparr>Host = ''a'', Score = 3\<rparr>, \<lparr>Host = ''b'', Score = 7\<rparr>, \<lparr>Host = ''c'', Score = 7\<rparr>] =
       (''c'', None)
   \<and> selectHost 1 [] = ('''', Some EmptyPriorityList)"
proof -
  let ?l = "[\<lparr>Host = ''a'', Score = 3\<rparr>, \<lparr>Host = ''b'', Score = 7\<rparr>, \<lparr>Host = ''c'', Score = 7\<rparr>]"
  have ne: "?l \<noteq> []" by simp
  from selectHost_picks_a_best_host [of 1 "[]"]
  have one: "snd (selectHost 1 []) \<noteq> None" by simp
  from selectHost_picks_a_best_host [of 1 ?l] ne
  have two: "\<exists>entry \<in> set ?l. fst (selectHost 1 ?l) = Host entry \<and> Score entry = Max (Score ` set ?l)"
    by blast
  have three: "selectHost 1 ?l = (''c'', None)"
    by (simp add: selectHost_def sortReverse_def getBestHosts_def)
  have four: "selectHost 1 [] = ('''', Some EmptyPriorityList)"
    by (simp add: selectHost_def)
  from one two three four show ?thesis by (intro conjI)
qed

section \<open>Priority stage\<close>

text \<open>
  Claim C1 as stated fails: with one priority function registered, of weight 0, and no
  extender, there is no priority function of non-zero weight, yet the ranking returned
  for two survivors is empty.
\<close>

theorem equal_priority_not_for_zero_weights:
  "Weight \<lparr>Function = equalScores, Weight = 0\<rparr> = 0
   \<and> PrioritizeNodes pod0 noPods [] [\<lparr>Function = equalScores, Weight = 0\<rparr>]
         (FakeNodeLister [MkNode ''m1'', MkNode ''m2'']) [] noneFinished = (([], None), [])
   \<and> \<lparr>Host = ''m1'', Score = 1\<rparr> \<notin>
       set (fst (fst (PrioritizeNodes pod0 noPods [] [\<lparr>Function = equalScores, Weight = 0\<rparr>]
                        (FakeNodeLister [MkNode ''m1'', MkNode ''m2'']) [] noneFinished)))"
  by (simp add: PrioritizeNodes_def ranking_def)

text \<open>
  Claim C1, amended. When no priority function is registered at all and no extender is
  registered, \<open>PrioritizeNodes\<close> returns, for the survivors that its lister lists, one
  entry per survivor with score 1, in their order, and no error.
\<close>

theorem equal_priority_default:
  assumes "priorityConfigs = []" and "exts = []"
    and "NodeLister_List nodeLister = (survivors, None)"
  shows "PrioritizeNodes pod m2p podLister priorityConfigs nodeLister exts finished =
           ((map (\<lambda>node. \<lparr>Host = Name node, Score = 1\<rparr>) survivors, None), [])"
  using assms by (simp add: PrioritizeNodes_def EqualPriority_def)

theorem equal_priority_default_witness:
  "PrioritizeNodes pod0 noPods [] [] (FakeNodeLister [MkNode ''m1'', MkNode ''m2'', MkNode ''m3''])
     [] noneFinished =
   (([\<lparr>Host = ''m1'', Score = 1\<rparr>, \<lparr>Host = ''m2'', Score = 1\<rparr>, \<lparr>Host = ''m3'', Score = 1\<rparr>], None),
    [])"
proof -
  have lists: "NodeLister_List (FakeNodeLister [MkNode ''m1'', MkNode ''m2'', MkNode ''m3'']) =
                 ([MkNode ''m1'', MkNode ''m2'', MkNode ''m3''], None)"
    by (simp add: FakeNodeLister_def)
  from equal_priority_default [OF refl refl lists, of pod0 noPods "[]" noneFinished]
  show ?thesis by simp
qed

text \<open>
  Claim C4, at a failing input: one priority function of weight 1 that returns an error,
  no extender. When the goroutine has not ended by the time line 222 reads \<open>errs\<close>, the
  stage returns an empty ranking and no error, from which \<open>Schedule\<close> reports an empty
  priority list; only when the goroutine has already ended is the aggregate returned.
\<close>

theorem priority_error_missed:
  "PrioritizeNodes pod0 noPods [] [\<lparr>Function = failingPriority, Weight = 1\<rparr>]
     (FakeNodeLister [MkNode ''m1'']) [] noneFinished = (([], None), [])
   \<and> PrioritizeNodes pod0 noPods [] [\<lparr>Function = failingPriority, Weight = 1\<rparr>]
     (FakeNodeLister [MkNode ''m1'']) [] allFinished =
       (([], Some (Aggregate [OtherError ''priority failed''])), [])
   \<and> fst (Schedule mapPodsOk
        \<lparr>predicates = [(''ports'', alwaysFits)],
         prioritizers = [\<lparr>Function = failingPriority, Weight = 1\<rparr>], extenders = [], pods = []\<rparr>
        pod0 (Lister (Inr [MkNode ''m1''])) noneFinished 0) = ('''', Some EmptyPriorityList)"
  by (simp add: PrioritizeNodes_def ranking_def failingPriority_def noneFinished_def
      allFinished_def Schedule_def mapPodsOk_def findNodesThatFit_def alwaysFits_def selectHost_def)

section \<open>Priority stage: what the extenders are asked to score\<close>

lemma extenderScores_log:
  "snd (extenderScores pod nodes combinedScores exts) = map (\<lambda>ext. ExtenderPrioritize nodes) exts"
proof (induction exts arbitrary: combinedScores)
  case Nil
  then show ?case by simp
next
  case (Cons ext rest)
  let ?c = "case Prioritize ext pod nodes of
              Inl err \<Rightarrow> combinedScores
            | Inr (prioritizedList, weight) \<Rightarrow> addList combinedScores weight prioritizedList"
  from Cons.IH [of ?c] show ?case
    by (cases "extenderScores pod nodes ?c rest") simp
qed

lemma PrioritizeNodes_log:
  assumes exts: "exts \<noteq> []"
    and lists: "NodeLister_List nodeLister = (nodes, None)"
    and ok: "snd (fst (PrioritizeNodes pod m2p podLister priorityConfigs nodeLister exts finished)) = None"
  shows "snd (PrioritizeNodes pod m2p podLister priorityConfigs nodeLister exts finished) =
           map (\<lambda>ext. ExtenderPrioritize nodes) exts"
proof -
  let ?outcomes = "map (\<lambda>config. (Weight config, Function config pod m2p podLister nodeLister))
                     (filter (\<lambda>priorityConfig. Weight priorityConfig \<noteq> 0) priorityConfigs)"
  from lists have notnil: "\<not> isNil nodeLister"
    by (cases nodeLister) auto
  have noerrs: "errsAtCheck finished 0 ?outcomes = []"
  proof (rule ccontr)
    assume "errsAtCheck finished 0 ?outcomes \<noteq> []"
    with exts have "snd (fst (PrioritizeNodes pod m2p podLister priorityConfigs nodeLister exts finished)) \<noteq> None"
      by (simp add: PrioritizeNodes_def Let_def)
    with ok show False by simp
  qed
  obtain scores log where es:
    "extenderScores pod nodes (priorityScores [] ?outcomes) exts = (scores, log)"
    by (cases "extenderScores pod nodes (priorityScores [] ?outcomes) exts")
  from extenderScores_log [of pod nodes "priorityScores [] ?outcomes" exts] es
  have log: "log = map (\<lambda>ext. ExtenderPrioritize nodes) exts"
    by simp
  from exts lists notnil noerrs es log show ?thesis
    by (simp add: PrioritizeNodes_def Let_def)
qed

text \<open>
  Claim C2 as stated fails: of two candidates the predicate leaves \<open>m1\<close> only, and the
  one registered extender has its \<open>Prioritize\<close> called with \<open>m1\<close> alone, not with the
  full candidate list.
\<close>

theorem extender_prioritize_gets_survivors_only:
  "snd (Schedule mapPodsOk
          \<lparr>predicates = [(''onlyM1'', fitsOnM1)], prioritizers = [], extenders = [keepAll], pods = []\<rparr>
          pod0 (Lister (Inr [MkNode ''m1'', MkNode ''m2''])) noneFinished 0) =
     [PredicateCall ''onlyM1'' ''m1'', PredicateCall ''onlyM1'' ''m2'',
      ExtenderFilter [MkNode ''m1''], ExtenderPrioritize [MkNode ''m1'']]
   \<and> [MkNode ''m1''] \<noteq> [MkNode ''m1'', MkNode ''m2'']
   \<and> fst (Schedule mapPodsOk
          \<lparr>predicates = [(''onlyM1'', fitsOnM1)], prioritizers = [], extenders = [keepAll], pods = []\<rparr>
          pod0 (Lister (Inr [MkNode ''m1'', MkNode ''m2''])) noneFinished 0) = (''m1'', None)"
  by (simp add: Schedule_def mapPodsOk_def findNodesThatFit_def fitsOnM1_def keepAll_def
      recordFailure_def PrioritizeNodes_def FakeNodeLister_def scoreOne_def ranking_def
      selectHost_def sortReverse_def getBestHosts_def)

text \<open>
  Claim C2, amended. When at least one extender is registered and the Priority Stage
  returns no error, it calls the \<open>Prioritize\<close> of every extender, each with the list
  returned by the lister that the stage was given. As composed by \<open>Schedule\<close>, that
  lister lists the survivors of the Filter Stage: after the calls of the Filter Stage,
  the log of \<open>Schedule\<close> holds one \<open>Prioritize\<close> call per extender, each with the
  survivors.
\<close>

theorem extenders_prioritize_the_listed_nodes:
  "(exts \<noteq> [] \<and> NodeLister_List nodeLister = (nodes, None) \<and>
      snd (fst (PrioritizeNodes pod m2p podLister priorityConfigs nodeLister exts finished)) = None
      \<longrightarrow> snd (PrioritizeNodes pod m2p podLister priorityConfigs nodeLister exts finished) =
            map (\<lambda>ext. ExtenderPrioritize nodes) exts)
   \<and> (extenders g \<noteq> [] \<and> NodeLister_List nodeLister = (nodes, None) \<and> nodes \<noteq> [] \<and>
      M (pods g) = Inr m2p \<and>
      findNodesThatFit pod m2p (predicates g) nodes (extenders g) = ((filteredNodes, fm, None), flog) \<and>
      filteredNodes \<noteq> [] \<and>
      snd (fst (PrioritizeNodes pod m2p (pods g) (prioritizers g) (FakeNodeLister filteredNodes)
                  (extenders g) finished)) = None
      \<longrightarrow> snd (Schedule M g pod nodeLister finished rnd) =
            flog @ map (\<lambda>ext. ExtenderPrioritize filteredNodes) (extenders g))"
proof (intro conjI impI)
  assume "exts \<noteq> [] \<and> NodeLister_List nodeLister = (nodes, None) \<and>
      snd (fst (PrioritizeNodes pod m2p podLister priorityConfigs nodeLister exts finished)) = None"
  then show "snd (PrioritizeNodes pod m2p podLister priorityConfigs nodeLister exts finished) =
            map (\<lambda>ext. ExtenderPrioritize nodes) exts"
    using PrioritizeNodes_log by blast
next
  assume a: "extenders g \<noteq> [] \<and> NodeLister_List nodeLister = (nodes, None) \<and> nodes \<noteq> [] \<and>
      M (pods g) = Inr m2p \<and>
      findNodesThatFit pod m2p (predicates g) nodes (extenders g) = ((filteredNodes, fm, None), flog) \<and>
      filteredNodes \<noteq> [] \<and>
      snd (fst (PrioritizeNodes pod m2p (pods g) (prioritizers g) (FakeNodeLister filteredNodes)
                  (extenders g) finished)) = None"
  let ?p = "PrioritizeNodes pod m2p (pods g) (prioritizers g) (FakeNodeLister filteredNodes)
              (extenders g) finished"
  have lists: "NodeLister_List (FakeNodeLister filteredNodes) = (filteredNodes, None)"
    by (simp add: FakeNodeLister_def)
  from a have ext: "extenders g \<noteq> []" and ok: "snd (fst ?p) = None"
    by auto
  from PrioritizeNodes_log [OF ext lists ok]
  have plog: "snd ?p = map (\<lambda>ext. ExtenderPrioritize filteredNodes) (extenders g)" .
  obtain priorityList perr log' where p: "?p = ((priorityList, perr), log')"
    by (cases ?p) auto
  with ok plog have "perr = None" and "log' = map (\<lambda>ext. ExtenderPrioritize filteredNodes) (extenders g)"
    by auto
  with a p show "snd (Schedule M g pod nodeLister finished rnd) =
            flog @ map (\<lambda>ext. ExtenderPrioritize filteredNodes) (extenders g)"
    by (simp add: Schedule_def)
qed

theorem extenders_prioritize_the_listed_nodes_witness:
  "snd (PrioritizeNodes pod0 noPods [] [] (Lister (Inr [MkNode ''m1'', MkNode ''m2''])) [keepAll, dropAll]
          noneFinished) =
     [ExtenderPrioritize [MkNode ''m1'', MkNode ''m2''], ExtenderPrioritize [MkNode ''m1'', MkNode ''m2'']]
   \<and> snd (Schedule mapPodsOk
          \<lparr>predicates = [(''onlyM1'', fitsOnM1)], prioritizers = [], extenders = [keepAll], pods = []\<rparr>
          pod0 (Lister (Inr [MkNode ''m1'', MkNode ''m2''])) noneFinished 0) =
     [PredicateCall ''onlyM1'' ''m1'', PredicateCall ''onlyM1'' ''m2'', ExtenderFilter [MkNode ''m1'']] @
     [ExtenderPrioritize [MkNode ''m1'']]"
proof -
  let ?g = "\<lparr>predicates = [(''onlyM1'', fitsOnM1)], prioritizers = [], extenders = [keepAll], pods = []\<rparr>"
  let ?nodes = "[MkNode ''m1'', MkNode ''m2'']"
  have h1: "[keepAll, dropAll] \<noteq> [] \<and> NodeLister_List (Lister (Inr ?nodes)) = (?nodes, None) \<and>
      snd (fst (PrioritizeNodes pod0 noPods [] [] (Lister (Inr ?nodes)) [keepAll, dropAll] noneFinished)) = None"
    by (simp add: PrioritizeNodes_def split: prod.splits)
  have h2: "extenders ?g \<noteq> [] \<and> NodeLister_List (Lister (Inr ?nodes)) = (?nodes, None) \<and> ?nodes \<noteq> [] \<and>
      mapPodsOk (pods ?g) = Inr noPods \<and>
      findNodesThatFit pod0 noPods (predicates ?g) ?nodes (extenders ?g) =
        (([MkNode ''m1''], [''m2'' \<mapsto> {''onlyM1''}], None),
         [PredicateCall ''onlyM1'' ''m1'', PredicateCall ''onlyM1'' ''m2'', ExtenderFilter [MkNode ''m1'']]) \<and>
      [MkNode ''m1''] \<noteq> [] \<and>
      snd (fst (PrioritizeNodes pod0 noPods (pods ?g) (prioritizers ?g) (FakeNodeLister [MkNode ''m1''])
                  (extenders ?g) noneFinished)) = None"
    by (simp add: mapPodsOk_def findNodesThatFit_def fitsOnM1_def keepAll_def recordFailure_def
        PrioritizeNodes_def FakeNodeLister_def split: prod.splits)
  from extenders_prioritize_the_listed_nodes [where exts = "[keepAll, dropAll]"
      and nodeLister = "Lister (Inr ?nodes)" and nodes = ?nodes and pod = pod0 and ?m2p = noPods
      and podLister = "[]" and priorityConfigs = "[]" and finished = noneFinished, THEN conjunct1] h1
  have one: "snd (PrioritizeNodes pod0 noPods [] [] (Lister (Inr ?nodes)) [keepAll, dropAll] noneFinished) =
     [ExtenderPrioritize ?nodes, ExtenderPrioritize ?nodes]"
    by simp
  from extenders_prioritize_the_listed_nodes [where g = ?g and nodeLister = "Lister (Inr ?nodes)"
      and nodes = ?nodes and M = mapPodsOk and ?m2p = noPods and pod = pod0
      and filteredNodes = "[MkNode ''m1'']" and fm = "[''m2'' \<mapsto> {''onlyM1''}]"
      and flog = "[PredicateCall ''onlyM1'' ''m1'', PredicateCall ''onlyM1'' ''m2'', ExtenderFilter [MkNode ''m1'']]"
      and finished = noneFinished and rnd = 0, THEN conjunct2] h2
  have two: "snd (Schedule mapPodsOk ?g pod0 (Lister (Inr ?nodes)) noneFinished 0) =
     [PredicateCall ''onlyM1'' ''m1'', PredicateCall ''onlyM1'' ''m2'', ExtenderFilter [MkNode ''m1'']] @
     [ExtenderPrioritize [MkNode ''m1'']]"
    by simp
  from one two show ?thesis by (intro conjI)
qed

section \<open>The string form of a \<open>FitError\<close>\<close>

text \<open>
  Claim C3, at a failing input: a \<open>FitError\<close> whose failure map holds the one reason
  \<open>cpu\<close> for the one candidate \<open>m1\<close>. \<open>Error\<close> returns the summary naming \<open>cpu\<close>, and
  leaves the candidate with an empty set of reasons.
\<close>

theorem Error_pops_the_reason:
  "Error pickCpu [''m1''] \<lparr>Pod = pod0, FailedPredicates = [''m1'' \<mapsto> {''cpu''}]\<rparr> =
     (''Failed for reason cpu and possibly others'',
      \<lparr>Pod = pod0, FailedPredicates = [''m1'' \<mapsto> {}]\<rparr>)
   \<and> FailedPredicates (snd (Error pickCpu [''m1'']
         \<lparr>Pod = pod0, FailedPredicates = [''m1'' \<mapsto> {''cpu''}]\<rparr>)) ''m1'' = Some {}
   \<and> FailedPredicates \<lparr>Pod = pod0, FailedPredicates = [''m1'' \<mapsto> {''cpu''}]\<rparr> ''m1'' =
       Some {''cpu''}"
  by (simp add: Error_def PopAny_def pickCpu_def)

end
